theory Spec2Isabelle
  imports Main "HOL-Library.Sublist"
begin

section \<open>JavaScript values used by both source files\<close>

text \<open>
  A value that a \<^verbatim>\<open>throw\<close> or a rejected promise carries. The source only ever
  asks \<^verbatim>\<open>instanceof Error\<close> and reads \<^verbatim>\<open>.message\<close>, so an \<^verbatim>\<open>Error\<close> object is its
  message and every other value is \<open>NonError\<close>.
\<close>

datatype throwable = JsError (message: string) | NonError

text \<open>A settled promise (or a \<^verbatim>\<open>try\<close> block that has run): \<open>Inl\<close> is the thrown value.\<close>

type_synonym 'a settled = "throwable + 'a"

text \<open>\<^verbatim>\<open>String.prototype.startsWith\<close> with position 0.\<close>

definition startsWith :: "string \<Rightarrow> string \<Rightarrow> bool" where
  "startsWith s p = (take (length p) s = p)"

text \<open>
  \<^verbatim>\<open>String.prototype.split\<close> with a one-character separator: the pieces between the
  separators, never an empty array.
\<close>

fun split :: "char \<Rightarrow> string \<Rightarrow> string list" where
  "split c [] = [[]]"
| "split c (x # xs) =
     (if x = c then [] # split c xs
      else (let r = split c xs in (x # hd r) # tl r))"

text \<open>Reading an array at an index: \<open>None\<close> is \<^verbatim>\<open>undefined\<close>.\<close>

fun at_index :: "'a list \<Rightarrow> nat \<Rightarrow> 'a option" where
  "at_index [] i = None"
| "at_index (x # xs) 0 = Some x"
| "at_index (x # xs) (Suc i) = at_index xs i"

text \<open>
  \<^verbatim>\<open>Array.prototype.indexOf\<close>: the first index holding the value, \<open>-1\<close> when there is
  none.
\<close>

fun indexOf :: "'a list \<Rightarrow> 'a \<Rightarrow> int" where
  "indexOf [] v = -1"
| "indexOf (x # xs) v =
     (if x = v then 0 else (let i = indexOf xs v in if i < 0 then -1 else i + 1))"


section \<open>services/geminiService.ts\<close>

subsection \<open>The request and the response of the external call\<close>

text \<open>
  The module throws at load time when \<^verbatim>\<open>API_KEY\<close> is not set (lines 4-7); what follows
  is the module once loaded. The inline data of a part: both fields are strings, as line
  45 declares the data.
\<close>

record blob =
  data :: string
  mimeType :: string

text \<open>A content part of the response; an absent field is \<open>None\<close>.\<close>

record part =
  inlineData :: "blob option"
  part_text :: "string option"

text \<open>
  What \<^verbatim>\<open>response.candidates[0].content.parts\<close> evaluates to. \<open>Parts ps\<close>: the path
  exists and iterates over \<open>ps\<close>. \<open>Malformed m\<close>: reading or iterating the path raises
  the engine's \<^verbatim>\<open>TypeError\<close>, whose message is \<open>m\<close>.
\<close>

datatype response = Parts "part list" | Malformed string

text \<open>
  The argument of \<^verbatim>\<open>ai.models.generateContent\<close>. The image data is what the caller
  passes, which is \<^verbatim>\<open>undefined\<close> (\<open>None\<close>) when the encoder found no payload.
\<close>

datatype modality = IMAGE

record request =
  model :: string
  image_data :: "string option"
  image_mimeType :: string
  prompt_text :: string
  responseModalities :: "modality list"

subsection \<open>The prompt (lines 11-20)\<close>

definition NL :: string where
  "NL = [CHR 0x0A]"

text \<open>The template literal up to the interpolation of line 19.\<close>

definition prompt_head :: string where
  "prompt_head =
     NL @ ''    Transform the provided image into a professional, studio-quality headshot.''
   @ NL @ ''    The final image must be well-lit with soft, even lighting, suitable for a corporate or business profile like LinkedIn.''
   @ NL @ ''    The background must be a neutral, blurred background (like a solid light gray, or a soft office blur).''
   @ NL @ ''    The person'' @ [CHR 0x27] @ ''s facial details must be sharp and in focus.''
   @ NL @ ''    The person should be centered, looking at the camera with a natural, confident expression.''
   @ NL @ ''    The final image must be highly realistic, resembling a photograph taken with a high-end DSLR camera.''
   @ NL @ ''    Strictly do not include any text, watermarks, or logos.''
   @ NL @ ''    ''"

text \<open>The template literal after the interpolation.\<close>

definition prompt_tail :: string where
  "prompt_tail = NL @ ''  ''"

definition instruction_phrase :: string where
  "instruction_phrase = ''Incorporate these user instructions:''"

text \<open>The inner template literal of line 19.\<close>

definition instruction_clause :: "string \<Rightarrow> string" where
  "instruction_clause description =
     instruction_phrase @ '' '' @ [CHR 0x22] @ description @ [CHR 0x22]"

text \<open>A string is truthy exactly when it is not empty.\<close>

definition fullPrompt :: "string \<Rightarrow> string" where
  "fullPrompt description =
     prompt_head
     @ (if description \<noteq> [] then instruction_clause description else [])
     @ prompt_tail"

subsection \<open>generateHeadshot (lines 10-57)\<close>

definition build_request :: "string option \<Rightarrow> string \<Rightarrow> string \<Rightarrow> request" where
  "build_request base64Image mime description =
     \<lparr> model = ''gemini-2.5-flash-image'',
       image_data = base64Image,
       image_mimeType = mime,
       prompt_text = fullPrompt description,
       responseModalities = [IMAGE] \<rparr>"

definition empty_response_message :: string where
  "empty_response_message = ''No image was generated. The response from the API was empty.''"

definition failure_prefix :: string where
  "failure_prefix = ''Failed to generate headshot: ''"

definition unknown_failure_message :: string where
  "unknown_failure_message = ''An unknown error occurred while generating the headshot.''"

text \<open>
  The loop of lines 43-48 followed by the \<^verbatim>\<open>throw\<close> of line 49: the first part with
  inline data returns from the function, and a loop that ends throws.
\<close>

fun scan_parts :: "part list \<Rightarrow> string settled" where
  "scan_parts [] = Inl (JsError empty_response_message)"
| "scan_parts (p # ps) =
     (case inlineData p of
        Some b \<Rightarrow> Inr (''data:'' @ mimeType b @ '';base64,'' @ data b)
      | None \<Rightarrow> scan_parts ps)"

text \<open>
  The body of the \<^verbatim>\<open>try\<close> block once the awaited call has settled: a rejected call
  throws its value at the \<^verbatim>\<open>await\<close>, a malformed response throws a \<^verbatim>\<open>TypeError\<close> at
  line 43.
\<close>

definition try_body :: "response settled \<Rightarrow> string settled" where
  "try_body outcome =
     (case outcome of
        Inl thrown \<Rightarrow> Inl thrown
      | Inr (Malformed m) \<Rightarrow> Inl (JsError m)
      | Inr (Parts ps) \<Rightarrow> scan_parts ps)"

text \<open>
  The \<^verbatim>\<open>catch\<close> block of lines 50-56: it always throws a new \<^verbatim>\<open>Error\<close>. Its
  \<^verbatim>\<open>console.error\<close> writes to the console only and is left out.
\<close>

definition catch_block :: "throwable \<Rightarrow> throwable" where
  "catch_block err =
     (case err of
        JsError m \<Rightarrow> JsError (failure_prefix @ m)
      | NonError \<Rightarrow> JsError unknown_failure_message)"

text \<open>
  The function after its \<^verbatim>\<open>await\<close>: everything the \<^verbatim>\<open>try\<close> block throws, its own
  \<^verbatim>\<open>throw\<close> of line 49 included, goes through the \<^verbatim>\<open>catch\<close> block.
\<close>

definition generateHeadshot_resume :: "response settled \<Rightarrow> string settled" where
  "generateHeadshot_resume outcome =
     (case try_body outcome of
        Inl thrown \<Rightarrow> Inl (catch_block thrown)
      | Inr uri \<Rightarrow> Inr uri)"

text \<open>
  The whole function against an external call given as a function of the request (a
  mocked \<^verbatim>\<open>ai.models.generateContent\<close>).
\<close>

definition generateHeadshot ::
  "(request \<Rightarrow> response settled) \<Rightarrow> string option \<Rightarrow> string \<Rightarrow> string \<Rightarrow> string settled" where
  "generateHeadshot generateContent base64Image mime description =
     generateHeadshot_resume (generateContent (build_request base64Image mime description))"


section \<open>components/ImageGenerator (the second module of App.tsx)\<close>

subsection \<open>Constants and the encoder (lines 29-56)\<close>

definition loadingMessages :: "string list" where
  "loadingMessages =
     [''Warming up the studio lights...'',
      ''Adjusting the camera lens...'',
      ''Finding the perfect angle...'',
      ''Applying professional touch-ups...'',
      ''Developing the photo in the digital darkroom...'',
      ''Polishing the final image...'']"

text \<open>A \<^verbatim>\<open>File\<close>: its name, its MIME type and its bytes.\<close>

record "file" =
  name :: string
  type :: string
  content :: string

text \<open>
  How the \<^verbatim>\<open>FileReader\<close> of \<^verbatim>\<open>fileToBase64\<close> ends: \<open>Onload r\<close> with \<open>r\<close> the data URL in
  \<^verbatim>\<open>reader.result\<close>, \<open>Onerror\<close> with a \<^verbatim>\<open>ProgressEvent\<close> (which is not an \<^verbatim>\<open>Error\<close>), or
  \<open>Threw e\<close> when \<^verbatim>\<open>readAsDataURL\<close> throws inside the promise executor, which rejects
  the promise with \<open>e\<close>.
\<close>

datatype reader_outcome = Onload string | Onerror | Threw throwable

definition fileToBase64 :: "reader_outcome \<Rightarrow> string option settled" where
  "fileToBase64 outcome =
     (case outcome of
        Onload result \<Rightarrow> Inr (at_index (split CHR '','' result) 1)
      | Onerror \<Rightarrow> Inl NonError
      | Threw e \<Rightarrow> Inl e)"

subsection \<open>The component's state, its refs and the browser around it\<close>

text \<open>The eight \<^verbatim>\<open>useState\<close> cells and the two refs of lines 59-69.\<close>

record component =
  description :: string
  sourceImageFile :: "file option"
  sourceImagePreview :: "string option"
  generatedImage :: "string option"
  isLoading :: bool
  error :: "string option"
  loadingMessage :: string
  isDragging :: bool
  fileInputRef :: bool
  intervalRef :: "nat option"

text \<open>
  \<open>fileInputRef\<close> holds whether \<^verbatim>\<open>fileInputRef.current\<close> is an element (the file input
  is mounted); \<open>intervalRef\<close> is \<^verbatim>\<open>intervalRef.current\<close>.

  The calls the component makes to the browser and to the adapter, in order.
\<close>

datatype call =
    ReadAsDataURL "file"
  | GenerateContent request
  | CreateObjectURL "file"
  | RevokeObjectURL string
  | SetFileInputValue string
  | ClickDownloadLink string string

text \<open>
  The world: the component, the active intervals of \<^verbatim>\<open>window.setInterval\<close> (handle and
  delay in milliseconds), the next handle the browser gives out (handles are positive),
  and the log of calls.
\<close>

record world = component +
  intervals :: "(nat \<times> nat) list"
  nextHandle :: nat
  calls :: "call list"

text \<open>Truthiness of \<^verbatim>\<open>string | null\<close> and of \<^verbatim>\<open>number | null\<close>.\<close>

definition truthy_string :: "string option \<Rightarrow> bool" where
  "truthy_string v = (case v of None \<Rightarrow> False | Some s \<Rightarrow> s \<noteq> [])"

definition truthy_number :: "nat option \<Rightarrow> bool" where
  "truthy_number v = (case v of None \<Rightarrow> False | Some n \<Rightarrow> n \<noteq> 0)"

definition log_call :: "call \<Rightarrow> world \<Rightarrow> world" where
  "log_call c w = w\<lparr>calls := calls w @ [c]\<rparr>"

definition setInterval :: "nat \<Rightarrow> world \<Rightarrow> nat \<times> world" where
  "setInterval delay w =
     (nextHandle w,
      w\<lparr>intervals := intervals w @ [(nextHandle w, delay)], nextHandle := nextHandle w + 1\<rparr>)"

definition clearInterval :: "nat \<Rightarrow> world \<Rightarrow> world" where
  "clearInterval h w = w\<lparr>intervals := filter (\<lambda>(i, d). i \<noteq> h) (intervals w)\<rparr>"

subsection \<open>The rotating status message (lines 71-88)\<close>

text \<open>The updater passed to \<^verbatim>\<open>setLoadingMessage\<close> in the interval callback.\<close>

definition next_message :: "string \<Rightarrow> string" where
  "next_message prev =
     (let currentIndex = indexOf loadingMessages prev;
          nextIndex = (currentIndex + 1) mod int (length loadingMessages)
      in loadingMessages ! nat nextIndex)"

definition interval_callback :: "world \<Rightarrow> world" where
  "interval_callback w = w\<lparr>loadingMessage := next_message (loadingMessage w)\<rparr>"

text \<open>The body of the effect on \<^verbatim>\<open>[isLoading]\<close> and the cleanup it returns.\<close>

definition loading_effect :: "world \<Rightarrow> world" where
  "loading_effect w =
     (if isLoading w then
        (let (h, w') = setInterval 3000 w in w'\<lparr>intervalRef := Some h\<rparr>)
      else if truthy_number (intervalRef w) then
        (clearInterval (the (intervalRef w)) w)\<lparr>intervalRef := None\<rparr>
      else w)"

definition loading_cleanup :: "world \<Rightarrow> world" where
  "loading_cleanup w =
     (if truthy_number (intervalRef w) then clearInterval (the (intervalRef w)) w else w)"

text \<open>
  The cleanup of the effect on \<^verbatim>\<open>[sourceImagePreview]\<close> (lines 90-96), which closes over
  the preview of the render that registered it.
\<close>

definition preview_cleanup :: "string option \<Rightarrow> world \<Rightarrow> world" where
  "preview_cleanup preview w =
     (if truthy_string preview then log_call (RevokeObjectURL (the preview)) w else w)"

subsection \<open>The handlers (lines 98-186)\<close>

text \<open>
  \<open>url\<close> is what \<^verbatim>\<open>URL.createObjectURL\<close> returns if this call reaches it.
\<close>

definition handleFileSelect :: "string \<Rightarrow> file option \<Rightarrow> world \<Rightarrow> world" where
  "handleFileSelect url f w =
     (case f of
        None \<Rightarrow> w
      | Some file \<Rightarrow>
          if \<not> startsWith (type file) ''image/'' then
            w\<lparr>error := Some ''Please upload a valid image file (PNG, JPG, WEBP).''\<rparr>
          else
            (let w1 = (if truthy_string (sourceImagePreview w)
                       then log_call (RevokeObjectURL (the (sourceImagePreview w))) w
                       else w);
                 w2 = log_call (CreateObjectURL file) w1
             in w2\<lparr>sourceImageFile := Some file,
                   sourceImagePreview := Some url,
                   error := None\<rparr>))"

definition handleFileChange :: "string \<Rightarrow> file option \<Rightarrow> world \<Rightarrow> world" where
  "handleFileChange url files0 w = handleFileSelect url files0 w"

definition handleDragOver :: "world \<Rightarrow> world" where
  "handleDragOver w = w\<lparr>isDragging := True\<rparr>"

definition handleDragLeave :: "world \<Rightarrow> world" where
  "handleDragLeave w = w\<lparr>isDragging := False\<rparr>"

definition handleDrop :: "string \<Rightarrow> file option \<Rightarrow> world \<Rightarrow> world" where
  "handleDrop url files0 w = handleFileSelect url files0 (w\<lparr>isDragging := False\<rparr>)"

definition clearSourceImage :: "world \<Rightarrow> world" where
  "clearSourceImage w =
     (let w1 = w\<lparr>sourceImageFile := None, sourceImagePreview := None\<rparr>
      in if fileInputRef w1 then log_call (SetFileInputValue []) w1 else w1)"


text \<open>The \<^verbatim>\<open>catch\<close> and \<^verbatim>\<open>finally\<close> blocks of \<^verbatim>\<open>handleGenerate\<close> (lines 159-167).\<close>

definition catch_generate :: "throwable \<Rightarrow> world \<Rightarrow> world" where
  "catch_generate err w =
     (case err of
        JsError m \<Rightarrow> w\<lparr>error := Some m\<rparr>
      | NonError \<Rightarrow> w\<lparr>error := Some ''An unexpected error occurred.''\<rparr>)"

definition finally_generate :: "world \<Rightarrow> world" where
  "finally_generate w = w\<lparr>isLoading := False\<rparr>"

text \<open>
  \<^verbatim>\<open>handleGenerate\<close> is an \<^verbatim>\<open>async\<close> function with two \<^verbatim>\<open>await\<close>s, so it runs in three
  segments, and other events may run between them. A suspended call is a \<open>task\<close>: it
  keeps what the closure captured (the file and the description of the render that was
  clicked) or the request it is waiting for.
\<close>

datatype task = AwaitRead "file" string | AwaitGenerate request

text \<open>Lines 144-156, up to the first \<^verbatim>\<open>await\<close>.\<close>

definition handleGenerate_start :: "world \<Rightarrow> world \<times> task option" where
  "handleGenerate_start w =
     (case sourceImageFile w of
        None \<Rightarrow> (w\<lparr>error := Some ''Please upload an image to start.''\<rparr>, None)
      | Some f \<Rightarrow>
          (log_call (ReadAsDataURL f)
             (w\<lparr>isLoading := True,
                error := None,
                generatedImage := None,
                loadingMessage := loadingMessages ! 0\<rparr>),
           Some (AwaitRead f (description w))))"

text \<open>
  From the first \<^verbatim>\<open>await\<close> to the second: a failed read goes to \<^verbatim>\<open>catch\<close> and
  \<^verbatim>\<open>finally\<close>, a successful one calls \<^verbatim>\<open>generateHeadshot\<close>, which sends the request.
\<close>

definition handleGenerate_afterRead ::
  "reader_outcome \<Rightarrow> file \<Rightarrow> string \<Rightarrow> world \<Rightarrow> world \<times> task option" where
  "handleGenerate_afterRead outcome f d w =
     (case fileToBase64 outcome of
        Inl err \<Rightarrow> (finally_generate (catch_generate err w), None)
      | Inr base64Image \<Rightarrow>
          (let req = build_request base64Image (type f) d
           in (log_call (GenerateContent req) w, Some (AwaitGenerate req))))"

text \<open>After the second \<^verbatim>\<open>await\<close>: lines 158-167.\<close>

definition handleGenerate_afterGenerate :: "response settled \<Rightarrow> world \<Rightarrow> world" where
  "handleGenerate_afterGenerate outcome w =
     (case generateHeadshot_resume outcome of
        Inl err \<Rightarrow> finally_generate (catch_generate err w)
      | Inr imageUrl \<Rightarrow> finally_generate (w\<lparr>generatedImage := Some imageUrl\<rparr>))"

text \<open>
  The three segments in a row, nothing running in between, against a reader outcome and
  an external call given as a function.
\<close>

definition handleGenerate ::
  "reader_outcome \<Rightarrow> (request \<Rightarrow> response settled) \<Rightarrow> world \<Rightarrow> world" where
  "handleGenerate outcome generateContent w =
     (case handleGenerate_start w of
        (w1, Some (AwaitRead f d)) \<Rightarrow>
          (case handleGenerate_afterRead outcome f d w1 of
             (w2, Some (AwaitGenerate req)) \<Rightarrow>
               handleGenerate_afterGenerate (generateContent req) w2
           | (w2, _) \<Rightarrow> w2)
      | (w1, _) \<Rightarrow> w1)"

definition handleDownload :: "world \<Rightarrow> world" where
  "handleDownload w =
     (if \<not> truthy_string (generatedImage w) then w
      else log_call (ClickDownloadLink (the (generatedImage w)) ''ai-headshot.jpg'') w)"

definition handleStartOver :: "world \<Rightarrow> world" where
  "handleStartOver w =
     clearSourceImage
       (w\<lparr>description := [], generatedImage := None, error := None, isLoading := False\<rparr>)"

subsection \<open>What is rendered (lines 188-273) and what React does after an update\<close>

datatype view = LoadingView | ResultView | FormView

definition view :: "world \<Rightarrow> view" where
  "view w =
     (if isLoading w then LoadingView
      else if truthy_string (generatedImage w) then ResultView
      else FormView)"

text \<open>In the form, the drop zone with the file input shows when there is no preview.\<close>

definition dropzone_shown :: "world \<Rightarrow> bool" where
  "dropzone_shown w = (view w = FormView \<and> \<not> truthy_string (sourceImagePreview w))"

definition generate_disabled :: "world \<Rightarrow> bool" where
  "generate_disabled w = (isLoading w \<or> sourceImageFile w = None)"

text \<open>
  After a handler (or a segment of \<^verbatim>\<open>handleGenerate\<close>) has run, React renders and
  commits, once for all the updates made in it: the ref of the file input follows the
  mounted element, and an effect whose dependency changed runs its previous cleanup and
  then its body. \<open>old\<close> is the world of the previous render.
\<close>

definition commit :: "world \<Rightarrow> world \<Rightarrow> world" where
  "commit old w =
     (let w1 = w\<lparr>fileInputRef := dropzone_shown w\<rparr>;
          w2 = (if isLoading w1 \<noteq> isLoading old
                then loading_effect (loading_cleanup w1) else w1)
      in if sourceImagePreview w2 \<noteq> sourceImagePreview old
         then preview_cleanup (sourceImagePreview old) w2 else w2)"

text \<open>The world after the first render and its effects.\<close>

definition initial_world :: world where
  "initial_world =
     \<lparr> description = [],
       sourceImageFile = None,
       sourceImagePreview = None,
       generatedImage = None,
       isLoading = False,
       error = None,
       loadingMessage = loadingMessages ! 0,
       isDragging = False,
       fileInputRef = True,
       intervalRef = None,
       intervals = [],
       nextHandle = 1,
       calls = [] \<rparr>"

subsection \<open>The session as a transition system\<close>

text \<open>
  The events that reach the component: the user's actions on the elements that are
  rendered, an interval firing, and the two awaited promises settling. \<open>FileChange\<close> and
  \<open>Drop\<close> carry the first file of the list (if any) and the URL the browser would give
  its preview.
\<close>

datatype event =
    FileChange "file option" string
  | DragOver
  | DragLeave
  | Drop "file option" string
  | ClickClear
  | TypeDescription string
  | ClickGenerate
  | ClickDownload
  | ClickStartOver
  | IntervalFires nat
  | ReadSettles reader_outcome
  | GenerateSettles "response settled"

type_synonym session = "world \<times> task list"

text \<open>
  The handler of an event, or \<open>None\<close> when the event cannot happen: the element is not
  rendered, the button is disabled, the interval is not active, or no suspended call
  waits for that promise. A settling promise resumes the oldest call waiting for it.
\<close>

fun resume_read :: "reader_outcome \<Rightarrow> world \<Rightarrow> task list \<Rightarrow> session option" where
  "resume_read outcome w [] = None"
| "resume_read outcome w (AwaitRead f d # ts) =
     (case handleGenerate_afterRead outcome f d w of
        (w', None) \<Rightarrow> Some (w', ts)
      | (w', Some t) \<Rightarrow> Some (w', t # ts))"
| "resume_read outcome w (t # ts) =
     (case resume_read outcome w ts of
        None \<Rightarrow> None
      | Some (w', ts') \<Rightarrow> Some (w', t # ts'))"

fun resume_generate :: "response settled \<Rightarrow> world \<Rightarrow> task list \<Rightarrow> session option" where
  "resume_generate outcome w [] = None"
| "resume_generate outcome w (AwaitGenerate req # ts) =
     Some (handleGenerate_afterGenerate outcome w, ts)"
| "resume_generate outcome w (t # ts) =
     (case resume_generate outcome w ts of
        None \<Rightarrow> None
      | Some (w', ts') \<Rightarrow> Some (w', t # ts'))"

fun handle :: "event \<Rightarrow> session \<Rightarrow> session option" where
  "handle (FileChange f url) (w, ts) =
     (if dropzone_shown w then Some (handleFileChange url f w, ts) else None)"
| "handle DragOver (w, ts) =
     (if dropzone_shown w then Some (handleDragOver w, ts) else None)"
| "handle DragLeave (w, ts) =
     (if dropzone_shown w then Some (handleDragLeave w, ts) else None)"
| "handle (Drop f url) (w, ts) =
     (if dropzone_shown w then Some (handleDrop url f w, ts) else None)"
| "handle ClickClear (w, ts) =
     (if view w = FormView \<and> truthy_string (sourceImagePreview w)
      then Some (clearSourceImage w, ts) else None)"
| "handle (TypeDescription v) (w, ts) =
     (if view w = FormView then Some (w\<lparr>description := v\<rparr>, ts) else None)"
| "handle ClickGenerate (w, ts) =
     (if view w = FormView \<and> \<not> generate_disabled w
      then (case handleGenerate_start w of
              (w', None) \<Rightarrow> Some (w', ts)
            | (w', Some t) \<Rightarrow> Some (w', ts @ [t]))
      else None)"
| "handle ClickDownload (w, ts) =
     (if view w = ResultView then Some (handleDownload w, ts) else None)"
| "handle ClickStartOver (w, ts) =
     (if view w = ResultView then Some (handleStartOver w, ts) else None)"
| "handle (IntervalFires h) (w, ts) =
     (if h \<in> fst ` set (intervals w) then Some (interval_callback w, ts) else None)"
| "handle (ReadSettles outcome) (w, ts) = resume_read outcome w ts"
| "handle (GenerateSettles outcome) (w, ts) = resume_generate outcome w ts"

definition step :: "event \<Rightarrow> session \<Rightarrow> session option" where
  "step e s =
     (case handle e s of
        None \<Rightarrow> None
      | Some (w', ts') \<Rightarrow> Some (commit (fst s) w', ts'))"

fun run :: "event list \<Rightarrow> session \<Rightarrow> session option" where
  "run [] s = Some s"
| "run (e # es) s = (case step e s of None \<Rightarrow> None | Some s' \<Rightarrow> run es s')"

subsection \<open>The \<^verbatim>\<open>try\<close> block of \<^verbatim>\<open>handleGenerate\<close> as one result\<close>

text \<open>
  What the two awaited calls of lines 156-157 give together: the first one that throws
  decides, otherwise the adapter's data URI.
\<close>

definition generate_attempt ::
  "reader_outcome \<Rightarrow> (request \<Rightarrow> response settled) \<Rightarrow> file \<Rightarrow> string \<Rightarrow> string settled" where
  "generate_attempt outcome generateContent f d =
     (case fileToBase64 outcome of
        Inl err \<Rightarrow> Inl err
      | Inr base64Image \<Rightarrow> generateHeadshot generateContent base64Image (type f) d)"

subsection \<open>Invariants of the session\<close>

text \<open>
  While loading there is no result and no error, and a suspended \<^verbatim>\<open>handleGenerate\<close>
  exists only while loading, and at most one.
\<close>

definition gen_inv :: "session \<Rightarrow> bool" where
  "gen_inv s =
     (case s of (w, ts) \<Rightarrow>
        (isLoading w \<longrightarrow> generatedImage w = None \<and> error w = None)
        \<and> (\<not> isLoading w \<longrightarrow> ts = [])
        \<and> length ts \<le> 1)"

text \<open>
  The interval runs exactly while loading, with a delay of 3000 ms, and the ref holds its
  handle.
\<close>

definition rot_inv :: "world \<Rightarrow> bool" where
  "rot_inv w =
     (0 < nextHandle w \<and> fileInputRef w = dropzone_shown w \<and>
      (if isLoading w
       then (\<exists>h. 0 < h \<and> intervalRef w = Some h \<and> intervals w = [(h, 3000)])
       else intervalRef w = None \<and> intervals w = []))"

subsection \<open>A session used as the concrete instance\<close>

definition example_image :: "file" where
  "example_image = \<lparr> name = ''me.jpg'', type = ''image/jpeg'', content = ''JFIF'' \<rparr>"

definition example_notes :: "file" where
  "example_notes = \<lparr> name = ''notes.txt'', type = ''text/plain'', content = ''hello'' \<rparr>"

text \<open>After choosing \<open>example_image\<close> in the initial world.\<close>

definition example_selected :: world where
  "example_selected =
     commit initial_world (handleFileSelect ''blob:1'' (Some example_image) initial_world)"

text \<open>After clicking the generate button then.\<close>

definition example_generating :: world where
  "example_generating = commit example_selected (fst (handleGenerate_start example_selected))"

text \<open>After the file read has failed then.\<close>

definition example_failed :: world where
  "example_failed =
     commit example_generating
       (fst (handleGenerate_afterRead Onerror example_image [] example_generating))"

text \<open>After the file read has succeeded instead, with the request sent.\<close>

definition example_request :: request where
  "example_request = build_request (Some ''SkZJRg=='') ''image/jpeg'' []"

definition example_sent :: world where
  "example_sent =
     commit example_generating
       (fst (handleGenerate_afterRead (Onload ''data:image/jpeg;base64,SkZJRg=='')
               example_image [] example_generating))"

definition example_text_part :: part where
  "example_text_part = \<lparr> inlineData = None, part_text = Some ''Here is your headshot.'' \<rparr>"

definition example_image_part :: part where
  "example_image_part =
     \<lparr> inlineData = Some \<lparr> data = ''iVBORw0KGgo='', mimeType = ''image/png'' \<rparr>,
       part_text = None \<rparr>"

definition example_other_part :: part where
  "example_other_part =
     \<lparr> inlineData = Some \<lparr> data = ''R0lGODlh'', mimeType = ''image/gif'' \<rparr>,
       part_text = None \<rparr>"


section \<open>Properties\<close>

lemmas handler_defs =
  handleFileChange_def handleFileSelect_def handleDragOver_def handleDragLeave_def
  handleDrop_def clearSourceImage_def handleGenerate_start_def handleGenerate_afterRead_def
  handleGenerate_afterGenerate_def handleDownload_def handleStartOver_def
  interval_callback_def catch_generate_def finally_generate_def log_call_def

lemmas render_defs = view_def dropzone_shown_def generate_disabled_def

lemmas timer_defs = loading_effect_def loading_cleanup_def preview_cleanup_def
  setInterval_def clearInterval_def truthy_number_def

lemmas example_defs = example_image_def example_notes_def example_selected_def
  example_generating_def example_failed_def initial_world_def

lemmas all_defs = handler_defs render_defs timer_defs commit_def startsWith_def
  truthy_string_def step_def Let_def

subsection \<open>The adapter\<close>

lemma scan_parts_skip:
  "\<forall>q\<in>set pre. inlineData q = None \<Longrightarrow> scan_parts (pre @ rest) = scan_parts rest"
  by (induction pre) simp_all

lemma scan_parts_none:
  "\<forall>q\<in>set ps. inlineData q = None \<Longrightarrow> scan_parts ps = Inl (JsError empty_response_message)"
  by (induction ps) simp_all

text \<open>
  Every list with a part that has inline data splits at the first such part, so the
  hypotheses of the next theorem cover every response the claim speaks of.
\<close>

lemma first_inline_part_exists:
  assumes "\<exists>p\<in>set ps. inlineData p \<noteq> None"
  shows "\<exists>pre p post b. ps = pre @ p # post \<and> (\<forall>q\<in>set pre. inlineData q = None)
           \<and> inlineData p = Some b"
proof -
  from split_list_first_prop[OF assms]
  obtain pre p post where "ps = pre @ p # post" and "inlineData p \<noteq> None"
    and "\<forall>q\<in>set pre. \<not> inlineData q \<noteq> None"
    by blast
  then show ?thesis by auto
qed

text \<open>
  C1. When the external call returns parts of which \<open>p\<close> is the first with inline data
  (all parts before it have none), \<open>generateHeadshot\<close> returns
  \<^verbatim>\<open>data:<mime>;base64,<payload>\<close> with the MIME type and the data of \<open>p\<close>; what follows
  the prefix is the data of \<open>p\<close> unchanged, so every decoder gives on it what it gives on
  the original payload.
\<close>

theorem generateHeadshot_first_inline_part:
  assumes "call (build_request base64Image mime instruction) = Inr (Parts ps)"
    and "ps = pre @ p # post"
    and "\<forall>q\<in>set pre. inlineData q = None"
    and "inlineData p = Some b"
  shows "generateHeadshot call base64Image mime instruction
           = Inr (''data:'' @ mimeType b @ '';base64,'' @ data b)
         \<and> drop (length (''data:'' @ mimeType b @ '';base64,''))
               (''data:'' @ mimeType b @ '';base64,'' @ data b) = data b"
  using assms
  by (simp add: generateHeadshot_def generateHeadshot_resume_def try_body_def scan_parts_skip)

theorem generateHeadshot_first_inline_part_witness:
  "generateHeadshot (\<lambda>req. Inr (Parts [example_text_part, example_image_part, example_other_part]))
     (Some ''SkZJRg=='') ''image/jpeg'' []
     = Inr ''data:image/png;base64,iVBORw0KGgo=''"
proof -
  have c: "(\<lambda>req. Inr (Parts [example_text_part, example_image_part, example_other_part]))
             (build_request (Some ''SkZJRg=='') ''image/jpeg'' [])
           = Inr (Parts [example_text_part, example_image_part, example_other_part])"
    by simp
  have d: "[example_text_part, example_image_part, example_other_part]
           = [example_text_part] @ example_image_part # [example_other_part]"
    by simp
  have n: "\<forall>q\<in>set [example_text_part]. inlineData q = None"
    by (simp add: example_text_part_def)
  have b: "inlineData example_image_part
           = Some \<lparr> data = ''iVBORw0KGgo='', mimeType = ''image/png'' \<rparr>"
    by (simp add: example_image_part_def)
  from generateHeadshot_first_inline_part [OF c d n b, THEN conjunct1]
  show ?thesis by simp
qed

text \<open>
  C2, as stated, fails: the \<^verbatim>\<open>throw\<close> of line 49 is inside the \<^verbatim>\<open>try\<close> block, so the
  \<^verbatim>\<open>catch\<close> block wraps its message like any other. For a response without parts the
  caller does not get the empty-response message itself.
\<close>

theorem empty_response_verbatim_counterexample:
  "generateHeadshot_resume (Inr (Parts []))
     = Inl (JsError ''Failed to generate headshot: No image was generated. The response from the API was empty.'')
   \<and> generateHeadshot_resume (Inr (Parts []))
     \<noteq> Inl (JsError ''No image was generated. The response from the API was empty.'')"
  by (simp add: generateHeadshot_resume_def try_body_def catch_block_def failure_prefix_def
      empty_response_message_def)

text \<open>
  C2, amended. When the external call returns a parts list none of whose parts has inline
  data, \<open>generateHeadshot\<close> fails with an \<^verbatim>\<open>Error\<close> whose message is the empty-response
  message behind the fixed prefix \<^verbatim>\<open>Failed to generate headshot: \<close>. When the call
  returns a response whose parts cannot be read at all (no candidates, content or
  parts), it fails with the message of the \<^verbatim>\<open>TypeError\<close> behind the same prefix.
\<close>

theorem generateHeadshot_empty_response:
  "(call (build_request base64Image mime instruction) = Inr (Parts ps)
      \<and> (\<forall>q\<in>set ps. inlineData q = None) \<longrightarrow>
      generateHeadshot call base64Image mime instruction
        = Inl (JsError (''Failed to generate headshot: ''
               @ ''No image was generated. The response from the API was empty.'')))
   \<and> (call (build_request base64Image mime instruction) = Inr (Malformed m) \<longrightarrow>
      generateHeadshot call base64Image mime instruction
        = Inl (JsError (''Failed to generate headshot: '' @ m)))"
  by (simp add: generateHeadshot_def generateHeadshot_resume_def try_body_def scan_parts_none
      catch_block_def failure_prefix_def empty_response_message_def)

theorem generateHeadshot_empty_response_witness:
  "generateHeadshot (\<lambda>req. Inr (Parts [example_text_part])) (Some ''SkZJRg=='') ''image/jpeg'' []
     = Inl (JsError ''Failed to generate headshot: No image was generated. The response from the API was empty.'')
   \<and> generateHeadshot (\<lambda>req. Inr (Malformed ''candidates is undefined''))
       (Some ''SkZJRg=='') ''image/jpeg'' []
     = Inl (JsError ''Failed to generate headshot: candidates is undefined'')"
proof -
  have n: "\<forall>q\<in>set [example_text_part]. inlineData q = None"
    by (simp add: example_text_part_def)
  have c: "(\<lambda>req. Inr (Parts [example_text_part]))
             (build_request (Some ''SkZJRg=='') ''image/jpeg'' [])
           = Inr (Parts [example_text_part])"
    by simp
  have d: "(\<lambda>req. Inr (Malformed ''candidates is undefined''))
             (build_request (Some ''SkZJRg=='') ''image/jpeg'' [])
           = Inr (Malformed ''candidates is undefined'')"
    by simp
  from generateHeadshot_empty_response [of "\<lambda>req. Inr (Parts [example_text_part])" "Some ''SkZJRg==''" "''image/jpeg''" "[]"
              "[example_text_part]", THEN conjunct1, rule_format, OF conjI, OF c n]
  have a: "generateHeadshot (\<lambda>req. Inr (Parts [example_text_part])) (Some ''SkZJRg=='')
             ''image/jpeg'' []
     = Inl (JsError ''Failed to generate headshot: No image was generated. The response from the API was empty.'')"
    by simp
  from generateHeadshot_empty_response [of "\<lambda>req. Inr (Malformed ''candidates is undefined'')" "Some ''SkZJRg==''"
              "''image/jpeg''" "[]" undefined "''candidates is undefined''",
           THEN conjunct2, rule_format, OF d]
  have b: "generateHeadshot (\<lambda>req. Inr (Malformed ''candidates is undefined''))
       (Some ''SkZJRg=='') ''image/jpeg'' []
     = Inl (JsError ''Failed to generate headshot: candidates is undefined'')"
    by simp
  from a b show ?thesis by blast
qed

text \<open>
  C3. When the external call throws \<open>e\<close>, \<open>generateHeadshot\<close> fails with an \<^verbatim>\<open>Error\<close>:
  its message is the message of \<open>e\<close> behind the prefix \<^verbatim>\<open>Failed to generate headshot: \<close>
  when \<open>e\<close> is an \<^verbatim>\<open>Error\<close>, and the one fixed generic message otherwise.
\<close>

theorem generateHeadshot_call_throws:
  assumes "call (build_request base64Image mime instruction) = Inl e"
  shows "generateHeadshot call base64Image mime instruction
           = Inl (JsError (case e of
                    JsError m \<Rightarrow> ''Failed to generate headshot: '' @ m
                  | NonError \<Rightarrow> ''An unknown error occurred while generating the headshot.''))"
  using assms
  by (simp add: generateHeadshot_def generateHeadshot_resume_def try_body_def catch_block_def
      failure_prefix_def unknown_failure_message_def split: throwable.splits)

theorem generateHeadshot_call_throws_witness:
  "generateHeadshot (\<lambda>req. Inl (JsError ''quota exceeded'')) (Some ''SkZJRg=='') ''image/jpeg'' []
     = Inl (JsError ''Failed to generate headshot: quota exceeded'')
   \<and> generateHeadshot (\<lambda>req. Inl NonError) (Some ''SkZJRg=='') ''image/jpeg'' []
     = Inl (JsError ''An unknown error occurred while generating the headshot.'')"
  using generateHeadshot_call_throws
      [of "\<lambda>req. Inl (JsError ''quota exceeded'')" "Some ''SkZJRg==''" "''image/jpeg''" "[]"
          "JsError ''quota exceeded''"]
    generateHeadshot_call_throws
      [of "\<lambda>req. Inl NonError" "Some ''SkZJRg==''" "''image/jpeg''" "[]" NonError]
  by simp

subsection \<open>The prompt\<close>

lemma template_without_phrase:
  "\<not> sublist ''Incorporate these user instructions:'' (prompt_head @ prompt_tail)"
  by (simp add: prompt_head_def prompt_tail_def NL_def sublist_code)

text \<open>
  C4. The prompt sent with a request depends on the instruction text alone (the same
  text gives the same prompt, whatever the image). For the empty text it is the fixed
  template, in which the phrase \<^verbatim>\<open>Incorporate these user instructions:\<close> does not occur.
  For a non-empty text it is that template with one clause put between its two halves:
  the phrase, a space, and the text verbatim between double quotes.
\<close>

theorem fullPrompt_instruction_clause:
  "prompt_text (build_request image1 mime1 d) = prompt_text (build_request image2 mime2 d)
   \<and> prompt_text (build_request image1 mime1 d) = fullPrompt d
   \<and> fullPrompt [] = prompt_head @ prompt_tail
   \<and> \<not> sublist ''Incorporate these user instructions:'' (fullPrompt [])
   \<and> (d \<noteq> [] \<longrightarrow>
        fullPrompt d
          = prompt_head
            @ (''Incorporate these user instructions: '' @ [CHR 0x22] @ d @ [CHR 0x22])
            @ prompt_tail)"
proof -
  have "fullPrompt [] = prompt_head @ prompt_tail"
    by (simp add: fullPrompt_def)
  moreover from this have "\<not> sublist ''Incorporate these user instructions:'' (fullPrompt [])"
    using template_without_phrase by simp
  moreover have "fullPrompt d
          = prompt_head
            @ (''Incorporate these user instructions: '' @ [CHR 0x22] @ d @ [CHR 0x22])
            @ prompt_tail" if "d \<noteq> []"
    using that by (simp add: fullPrompt_def instruction_clause_def instruction_phrase_def)
  ultimately show ?thesis
    by (simp add: build_request_def)
qed

theorem fullPrompt_instruction_clause_witness:
  "''Wear a black suit'' \<noteq> []
   \<and> fullPrompt ''Wear a black suit''
       = prompt_head
         @ (''Incorporate these user instructions: '' @ [CHR 0x22] @ ''Wear a black suit''
            @ [CHR 0x22])
         @ prompt_tail"
  using fullPrompt_instruction_clause [of undefined undefined "''Wear a black suit''"]
  by simp

subsection \<open>Selecting a file, starting without one, starting over\<close>

text \<open>
  C5. For a file whose MIME type does not start with \<^verbatim>\<open>image/\<close>, \<open>handleFileSelect\<close>
  sets the error message and changes nothing else: the same view is rendered, and the
  stored file and preview are the ones from before.
\<close>

theorem handleFileSelect_rejects_non_image:
  assumes "\<not> startsWith (type f) ''image/''"
  shows "handleFileSelect url (Some f) w
           = w\<lparr>error := Some ''Please upload a valid image file (PNG, JPG, WEBP).''\<rparr>
         \<and> view (handleFileSelect url (Some f) w) = view w
         \<and> sourceImageFile (handleFileSelect url (Some f) w) = sourceImageFile w
         \<and> sourceImagePreview (handleFileSelect url (Some f) w) = sourceImagePreview w"
  using assms by (simp add: handleFileSelect_def view_def)

theorem handleFileSelect_rejects_non_image_witness:
  "\<not> startsWith (type example_notes) ''image/''
   \<and> handleFileSelect ''blob:1'' (Some example_notes) initial_world
       = initial_world\<lparr>error := Some ''Please upload a valid image file (PNG, JPG, WEBP).''\<rparr>"
proof -
  have n: "\<not> startsWith (type example_notes) ''image/''"
    by (simp add: example_notes_def startsWith_def)
  from handleFileSelect_rejects_non_image [OF n, of "''blob:1''" initial_world, THEN conjunct1] n
  show ?thesis by simp
qed

text \<open>
  C6. Without a source image, \<open>handleGenerate\<close> stops in its first segment: it sets the
  error to \<^verbatim>\<open>Please upload an image to start.\<close>, suspends nothing, changes no other part
  of the state and makes no call (no file read, no request).
\<close>

theorem handleGenerate_without_image:
  assumes "sourceImageFile w = None"
  shows "handleGenerate_start w = (w\<lparr>error := Some ''Please upload an image to start.''\<rparr>, None)
         \<and> handleGenerate outcome generateContent w
             = w\<lparr>error := Some ''Please upload an image to start.''\<rparr>
         \<and> calls (handleGenerate outcome generateContent w) = calls w"
  using assms by (simp add: handleGenerate_def handleGenerate_start_def)

theorem handleGenerate_without_image_witness:
  "sourceImageFile initial_world = None
   \<and> handleGenerate Onerror (\<lambda>req. Inl NonError) initial_world
       = initial_world\<lparr>error := Some ''Please upload an image to start.''\<rparr>
   \<and> calls (handleGenerate Onerror (\<lambda>req. Inl NonError) initial_world) = []"
proof -
  have n: "sourceImageFile initial_world = None"
    and c: "calls initial_world = []"
    by (simp_all add: initial_world_def)
  from handleGenerate_without_image [OF n, of Onerror "\<lambda>req. Inl NonError"] n c
  show ?thesis by simp
qed

text \<open>
  C7. After \<open>handleStartOver\<close>, from any state (so from a shown result or a shown error),
  the instruction text is empty, the source file, its preview, the generated image and
  the error are absent, the loading flag is off, and the form is what is rendered.
\<close>

theorem handleStartOver_resets:
  "description (handleStartOver w) = []
   \<and> sourceImageFile (handleStartOver w) = None
   \<and> sourceImagePreview (handleStartOver w) = None
   \<and> generatedImage (handleStartOver w) = None
   \<and> error (handleStartOver w) = None
   \<and> \<not> isLoading (handleStartOver w)
   \<and> view (handleStartOver w) = FormView"
  by (simp add: handleStartOver_def clearSourceImage_def log_call_def view_def
      truthy_string_def Let_def)

subsection \<open>The invariants hold in every reachable session\<close>

lemma commit_component:
  "isLoading (commit old w) = isLoading w"
  "generatedImage (commit old w) = generatedImage w"
  "error (commit old w) = error w"
  "loadingMessage (commit old w) = loadingMessage w"
  "description (commit old w) = description w"
  "sourceImageFile (commit old w) = sourceImageFile w"
  "sourceImagePreview (commit old w) = sourceImagePreview w"
  "isDragging (commit old w) = isDragging w"
  by (simp_all add: commit_def Let_def timer_defs log_call_def split: prod.splits)

lemma short_list: "length ts \<le> 1 \<Longrightarrow> ts = [] \<or> (\<exists>t. ts = [t])"
  by (cases ts) auto

lemma handle_gen_inv:
  assumes "gen_inv (w, ts)" and "handle e (w, ts) = Some (w', ts')"
  shows "gen_inv (w', ts')"
proof -
  from assms(1) have "ts = [] \<or> (\<exists>t. ts = [t])"
    by (simp add: gen_inv_def short_list)
  then show ?thesis
  proof
    assume "ts = []"
    with assms show ?thesis
      by (cases e)
         (auto simp: gen_inv_def handler_defs render_defs Let_def
               split: if_splits option.splits)
  next
    assume "\<exists>t. ts = [t]"
    then obtain t where t: "ts = [t]" ..
    with assms show ?thesis
      by (cases e; cases t)
         (auto simp: gen_inv_def handler_defs render_defs Let_def
               split: if_splits option.splits sum.splits throwable.splits)
  qed
qed

lemma step_gen_inv:
  assumes "gen_inv s" and "step e s = Some s'"
  shows "gen_inv s'"
proof -
  obtain w ts where s: "s = (w, ts)" by (cases s)
  from assms(2) s obtain w' ts' where h: "handle e (w, ts) = Some (w', ts')"
    and s': "s' = (commit w w', ts')"
    by (auto simp: step_def split: option.splits)
  from handle_gen_inv[OF assms(1)[unfolded s] h] have "gen_inv (w', ts')" .
  then show ?thesis by (simp add: s' gen_inv_def commit_component)
qed

lemma run_gen_inv: "gen_inv s \<Longrightarrow> run es s = Some s' \<Longrightarrow> gen_inv s'"
  by (induction es arbitrary: s) (auto split: option.splits dest: step_gen_inv)

lemma initial_gen_inv: "gen_inv (initial_world, [])"
  by (simp add: gen_inv_def initial_world_def)

text \<open>No handler touches the intervals, the interval ref or the handle counter.\<close>

lemma resume_read_timers:
  "resume_read outcome w ts = Some (w', ts') \<Longrightarrow>
     intervals w' = intervals w \<and> intervalRef w' = intervalRef w \<and> nextHandle w' = nextHandle w"
  by (induction outcome w ts arbitrary: ts' rule: resume_read.induct)
     (auto simp: handler_defs Let_def split: option.splits sum.splits throwable.splits)

lemma resume_generate_timers:
  "resume_generate outcome w ts = Some (w', ts') \<Longrightarrow>
     intervals w' = intervals w \<and> intervalRef w' = intervalRef w \<and> nextHandle w' = nextHandle w"
  by (induction outcome w ts arbitrary: ts' rule: resume_generate.induct)
     (auto simp: handler_defs Let_def split: option.splits sum.splits throwable.splits)

lemma handle_timers:
  assumes "handle e (w, ts) = Some (w', ts')"
  shows "intervals w' = intervals w \<and> intervalRef w' = intervalRef w \<and> nextHandle w' = nextHandle w"
proof (cases e)
  case (ReadSettles outcome)
  with assms show ?thesis using resume_read_timers by simp
next
  case (GenerateSettles outcome)
  with assms show ?thesis using resume_generate_timers by simp
qed (use assms in \<open>auto simp: handler_defs Let_def split: if_splits option.splits\<close>)

lemma commit_rot_inv:
  assumes "rot_inv old"
    and "intervals w = intervals old" and "intervalRef w = intervalRef old"
    and "nextHandle w = nextHandle old"
  shows "rot_inv (commit old w)"
  using assms
  by (auto simp: rot_inv_def commit_def Let_def timer_defs log_call_def render_defs)

lemma step_rot_inv:
  assumes "rot_inv (fst s)" and "step e s = Some s'"
  shows "rot_inv (fst s')"
proof -
  obtain w ts where s: "s = (w, ts)" by (cases s)
  from assms(2) s obtain w' ts' where h: "handle e (w, ts) = Some (w', ts')"
    and s': "s' = (commit w w', ts')"
    by (auto simp: step_def split: option.splits)
  from handle_timers[OF h] assms(1) s show ?thesis
    by (simp add: s' commit_rot_inv)
qed

lemma run_rot_inv: "rot_inv (fst s) \<Longrightarrow> run es s = Some s' \<Longrightarrow> rot_inv (fst s')"
  by (induction es arbitrary: s) (auto split: option.splits dest: step_rot_inv)

lemma initial_rot_inv: "rot_inv initial_world"
  by (simp add: rot_inv_def initial_world_def render_defs truthy_string_def)

subsection \<open>The example session, evaluated\<close>

lemma example_select_step:
  "step (FileChange (Some example_image) ''blob:1'') (initial_world, [])
     = Some (example_selected, [])"
  by (simp add: example_defs all_defs)

lemma example_click_step:
  "step ClickGenerate (example_selected, [])
     = Some (example_generating, [AwaitRead example_image []])"
  by (simp add: example_defs all_defs)

lemma example_select_run:
  "run [FileChange (Some example_image) ''blob:1''] (initial_world, [])
     = Some (example_selected, [])"
  by (simp add: example_select_step)

lemma example_generate_run:
  "run [FileChange (Some example_image) ''blob:1'', ClickGenerate] (initial_world, [])
     = Some (example_generating, [AwaitRead example_image []])"
  by (simp add: example_select_step example_click_step)

lemma example_fail_step:
  "step (ReadSettles Onerror) (example_generating, [AwaitRead example_image []])
     = Some (example_failed, [])"
  by (simp add: example_failed_def step_def handleGenerate_afterRead_def fileToBase64_def)

lemma example_sent_step:
  "step (ReadSettles (Onload ''data:image/jpeg;base64,SkZJRg==''))
        (example_generating, [AwaitRead example_image []])
     = Some (example_sent, [AwaitGenerate example_request])"
  by (simp add: example_sent_def example_request_def example_image_def step_def
      handleGenerate_afterRead_def fileToBase64_def Let_def)

lemma example_sent_run:
  "run [FileChange (Some example_image) ''blob:1'', ClickGenerate,
        ReadSettles (Onload ''data:image/jpeg;base64,SkZJRg=='')] (initial_world, [])
     = Some (example_sent, [AwaitGenerate example_request])"
  by (simp add: example_select_step example_click_step example_sent_step)

lemma example_sent_fields:
  "isLoading example_sent"
  "intervals example_sent = [(1, 3000)]"
  "loadingMessage example_sent = loadingMessages ! 0"
  by (simp_all add: example_sent_def example_defs all_defs fileToBase64_def loadingMessages_def)

lemma example_selected_fields:
  "sourceImageFile example_selected = Some example_image"
  "sourceImagePreview example_selected = Some ''blob:1''"
  "description example_selected = []"
  "\<not> isLoading example_selected"
  "intervals example_selected = []"
  by (simp_all add: example_defs all_defs)

lemma example_generating_fields:
  "isLoading example_generating"
  "generatedImage example_generating = None"
  "error example_generating = None"
  "intervals example_generating = [(1, 3000)]"
  "loadingMessage example_generating = ''Warming up the studio lights...''"
  "sourceImageFile example_generating = Some example_image"
  "sourceImagePreview example_generating = Some ''blob:1''"
  "description example_generating = []"
  by (simp_all add: example_defs all_defs loadingMessages_def)

lemma example_failed_fields:
  "\<not> isLoading example_failed"
  "error example_failed = Some ''An unexpected error occurred.''"
  "loadingMessage example_failed = ''Warming up the studio lights...''"
  "sourceImageFile example_failed = Some example_image"
  "sourceImagePreview example_failed = Some ''blob:1''"
  "description example_failed = []"
  by (simp_all add: example_failed_def commit_component handleGenerate_afterRead_def
      fileToBase64_def catch_generate_def finally_generate_def example_generating_fields)

subsection \<open>Generating\<close>

text \<open>
  C8. With a source image present, the first segment of \<open>handleGenerate\<close> (before any
  \<^verbatim>\<open>await\<close>, so before the adapter is called: the only call made is the file read) sets
  the loading flag and clears the generated image and the error. And in every session
  reached from the initial one by events the rendered UI allows, a set loading flag
  means that no generated image and no error is set.
\<close>

theorem generating_has_no_result_and_no_error:
  "(sourceImageFile w = Some f \<longrightarrow>
      handleGenerate_start w
        = (w\<lparr>isLoading := True, error := None, generatedImage := None,
              loadingMessage := ''Warming up the studio lights...'',
              calls := calls w @ [ReadAsDataURL f]\<rparr>,
           Some (AwaitRead f (description w))))
   \<and> (run es (initial_world, []) = Some (w', ts) \<and> isLoading w' \<longrightarrow>
        generatedImage w' = None \<and> error w' = None)"
proof -
  have a: "handleGenerate_start w
        = (w\<lparr>isLoading := True, error := None, generatedImage := None,
              loadingMessage := ''Warming up the studio lights...'',
              calls := calls w @ [ReadAsDataURL f]\<rparr>,
           Some (AwaitRead f (description w)))"
    if "sourceImageFile w = Some f"
    using that by (simp add: handleGenerate_start_def log_call_def loadingMessages_def)
  have b: "generatedImage w' = None \<and> error w' = None"
    if r: "run es (initial_world, []) = Some (w', ts)" and l: "isLoading w'"
    using run_gen_inv[OF initial_gen_inv r] l by (simp add: gen_inv_def)
  from a b show ?thesis by blast
qed

theorem generating_has_no_result_and_no_error_witness:
  "sourceImageFile example_selected = Some example_image
   \<and> snd (handleGenerate_start example_selected) = Some (AwaitRead example_image [])
   \<and> run [FileChange (Some example_image) ''blob:1'', ClickGenerate] (initial_world, [])
       = Some (example_generating, [AwaitRead example_image []])
   \<and> isLoading example_generating
   \<and> generatedImage example_generating = None
   \<and> error example_generating = None"
proof -
  note t = generating_has_no_result_and_no_error
    [of example_selected example_image
        "[FileChange (Some example_image) ''blob:1'', ClickGenerate]"
        example_generating "[AwaitRead example_image []]"]
  from t example_selected_fields(1)
  have "snd (handleGenerate_start example_selected)
          = Some (AwaitRead example_image (description example_selected))"
    by simp
  moreover from t example_generate_run example_generating_fields(1)
  have "generatedImage example_generating = None \<and> error example_generating = None"
    by blast
  ultimately show ?thesis
    using example_selected_fields(1,3) example_generate_run example_generating_fields(1)
    by simp
qed

subsection \<open>The rotating status message\<close>

lemma next_message_numerals:
  "next_message (loadingMessages ! 0) = loadingMessages ! (Suc 0 mod 6)"
  "next_message (loadingMessages ! 1) = loadingMessages ! (Suc 1 mod 6)"
  "next_message (loadingMessages ! 2) = loadingMessages ! (Suc 2 mod 6)"
  "next_message (loadingMessages ! 3) = loadingMessages ! (Suc 3 mod 6)"
  "next_message (loadingMessages ! 4) = loadingMessages ! (Suc 4 mod 6)"
  "next_message (loadingMessages ! 5) = loadingMessages ! (Suc 5 mod 6)"
  by code_simp+

lemma next_message_cycle:
  assumes "i < 6"
  shows "next_message (loadingMessages ! i) = loadingMessages ! (Suc i mod 6)"
proof -
  from assms have "i = 0 \<or> i = 1 \<or> i = 2 \<or> i = 3 \<or> i = 4 \<or> i = 5" by arith
  then show ?thesis
    by (elim disjE) (simp_all only: next_message_numerals)
qed

lemma tick_step:
  assumes "rot_inv w" and "isLoading w" and "intervals w = [(h, d)]"
  shows "step (IntervalFires h) (w, ts)
           = Some (w\<lparr>loadingMessage := next_message (loadingMessage w)\<rparr>, ts)"
  using assms
  by (simp add: step_def rot_inv_def commit_def Let_def interval_callback_def render_defs)

lemma ticks_run:
  assumes "rot_inv w" and "isLoading w" and "intervals w = [(h, d)]"
    and "loadingMessage w = loadingMessages ! i" and "i < 6"
  shows "run (replicate k (IntervalFires h)) (w, ts)
           = Some (w\<lparr>loadingMessage := loadingMessages ! ((i + k) mod 6)\<rparr>, ts)"
  using assms
proof (induction k arbitrary: w i)
  case 0
  then show ?case by simp
next
  case (Suc k)
  let ?w = "w\<lparr>loadingMessage := next_message (loadingMessage w)\<rparr>"
  have st: "step (IntervalFires h) (w, ts) = Some (?w, ts)"
    using Suc.prems by (simp add: tick_step)
  have nm: "loadingMessage ?w = loadingMessages ! (Suc i mod 6)"
    using Suc.prems by (simp add: next_message_cycle)
  have inv: "rot_inv ?w"
    using Suc.prems(1,2) by (auto simp: rot_inv_def render_defs)
  have "run (replicate k (IntervalFires h)) (?w, ts)
          = Some (?w\<lparr>loadingMessage := loadingMessages ! ((Suc i mod 6 + k) mod 6)\<rparr>, ts)"
    using Suc.prems by (intro Suc.IH[OF inv _ _ nm]) simp_all
  moreover have "(Suc i mod 6 + k) mod 6 = (i + Suc k) mod 6"
    by (metis add_Suc add_Suc_right mod_add_left_eq)
  ultimately show ?case using st by simp
qed

lemma settle_keeps_message:
  assumes "step e (w, ts) = Some (w', ts')"
    and "e = ReadSettles ro \<or> e = GenerateSettles go"
  shows "loadingMessage w' = loadingMessage w"
proof -
  from assms(1) obtain w1 where h: "handle e (w, ts) = Some (w1, ts')" and w': "w' = commit w w1"
    by (auto simp: step_def split: option.splits)
  have "loadingMessage w1 = loadingMessage w"
    using assms(2)
  proof
    assume "e = ReadSettles ro"
    moreover have "resume_read ro w ts = Some (w1, ts') \<Longrightarrow> loadingMessage w1 = loadingMessage w"
      by (induction ro w ts arbitrary: ts' rule: resume_read.induct)
         (auto simp: handler_defs Let_def split: option.splits sum.splits throwable.splits)
    ultimately show ?thesis using h by simp
  next
    assume "e = GenerateSettles go"
    moreover have "resume_generate go w ts = Some (w1, ts') \<Longrightarrow> loadingMessage w1 = loadingMessage w"
      by (induction go w ts arbitrary: ts' rule: resume_generate.induct)
         (auto simp: handler_defs Let_def split: option.splits sum.splits throwable.splits)
    ultimately show ?thesis using h by simp
  qed
  then show ?thesis by (simp add: w' commit_component)
qed

lemma click_generate_state:
  assumes "step ClickGenerate (w0, ts0) = Some (w, ts)"
  shows "isLoading w \<and> loadingMessage w = loadingMessages ! 0"
  using assms
  by (auto simp: step_def commit_component handleGenerate_start_def log_call_def
           generate_disabled_def split: if_splits option.splits)

text \<open>The message is always one of the list, and every loading session rotates.\<close>

lemma handle_message:
  assumes "handle e (w, ts) = Some (w', ts')"
  shows "loadingMessage w' = loadingMessage w \<or> loadingMessage w' = loadingMessages ! 0
         \<or> loadingMessage w' = next_message (loadingMessage w)"
proof -
  have rr: "resume_read ro w ts = Some (w', ts') \<Longrightarrow> loadingMessage w' = loadingMessage w" for ro
    by (induction ro w ts arbitrary: ts' rule: resume_read.induct)
       (auto simp: handler_defs Let_def split: option.splits sum.splits throwable.splits)
  have rg: "resume_generate go w ts = Some (w', ts') \<Longrightarrow> loadingMessage w' = loadingMessage w" for go
    by (induction go w ts arbitrary: ts' rule: resume_generate.induct)
       (auto simp: handler_defs Let_def split: option.splits sum.splits throwable.splits)
  show ?thesis
    using assms rr rg
    by (cases e) (auto simp: handler_defs Let_def split: if_splits option.splits)
qed

lemma step_message_in_list:
  assumes "\<exists>i<6. loadingMessage (fst s) = loadingMessages ! i" and "step e s = Some s'"
  shows "\<exists>i<6. loadingMessage (fst s') = loadingMessages ! i"
proof -
  obtain w ts where s: "s = (w, ts)" by (cases s)
  from assms(2) s obtain w' ts' where h: "handle e (w, ts) = Some (w', ts')"
    and s': "s' = (commit w w', ts')"
    by (auto simp: step_def split: option.splits)
  from assms(1) s obtain i where i: "i < 6" "loadingMessage w = loadingMessages ! i" by auto
  from handle_message[OF h]
  consider "loadingMessage w' = loadingMessage w" | "loadingMessage w' = loadingMessages ! 0"
    | "loadingMessage w' = next_message (loadingMessage w)" by blast
  then have "\<exists>j<6. loadingMessage w' = loadingMessages ! j"
  proof cases
    case 1
    with i show ?thesis by auto
  next
    case 2
    then show ?thesis by (intro exI[of _ 0]) simp
  next
    case 3
    with i have "loadingMessage w' = loadingMessages ! (Suc i mod 6)"
      by (simp add: next_message_cycle)
    then show ?thesis by (intro exI[of _ "Suc i mod 6"]) simp
  qed
  then show ?thesis by (simp add: s' commit_component)
qed

lemma run_message_in_list:
  "\<exists>i<6. loadingMessage (fst s) = loadingMessages ! i \<Longrightarrow> run es s = Some s' \<Longrightarrow>
     \<exists>i<6. loadingMessage (fst s') = loadingMessages ! i"
proof (induction es arbitrary: s)
  case Nil
  then show ?case by simp
next
  case (Cons e es)
  from Cons.prems(2) obtain s1 where st: "step e s = Some s1" and r: "run es s1 = Some s'"
    by (auto split: option.splits)
  from step_message_in_list[OF Cons.prems(1) st] Cons.IH[OF _ r] show ?case by blast
qed

lemma initial_message_in_list: "\<exists>i<6. loadingMessage (fst (initial_world, ts)) = loadingMessages ! i"
  by (intro exI[of _ 0]) (simp add: initial_world_def)

lemma loading_session_rotates:
  assumes r: "run es (initial_world, []) = Some (w, ts)" and l: "isLoading w"
  shows "\<exists>h i. i < 6 \<and> intervals w = [(h, 3000)] \<and> loadingMessage w = loadingMessages ! i
           \<and> (\<forall>k. run (replicate k (IntervalFires h)) (w, ts)
                      = Some (w\<lparr>loadingMessage := loadingMessages ! ((i + k) mod 6)\<rparr>, ts))"
proof -
  from run_rot_inv[OF _ r] initial_rot_inv have inv: "rot_inv w" by simp
  from inv l obtain h where h: "intervals w = [(h, 3000)]"
    by (auto simp: rot_inv_def)
  from run_message_in_list[OF initial_message_in_list r]
  obtain i where i: "i < 6" and m: "loadingMessage w = loadingMessages ! i" by auto
  have "run (replicate k (IntervalFires h)) (w, ts)
          = Some (w\<lparr>loadingMessage := loadingMessages ! ((i + k) mod 6)\<rparr>, ts)" for k
    using ticks_run[OF inv l h m i] .
  with h i m show ?thesis by blast
qed

text \<open>
  C9, as stated, fails where it says that the message is reset when generating ends: in
  the session below the interval fires once and the file read then fails; the loading
  flag is off and the message is still the second of the list.
\<close>

theorem status_message_reset_at_end_counterexample:
  "map_option (isLoading \<circ> fst)
     (run [FileChange (Some example_image) ''blob:1'', ClickGenerate, IntervalFires 1,
           ReadSettles Onerror] (initial_world, [])) = Some False
   \<and> map_option (loadingMessage \<circ> fst)
     (run [FileChange (Some example_image) ''blob:1'', ClickGenerate, IntervalFires 1,
           ReadSettles Onerror] (initial_world, [])) = Some ''Adjusting the camera lens...''
   \<and> ''Adjusting the camera lens...'' \<noteq> loadingMessages ! 0"
  by (simp add: example_defs all_defs fileToBase64_def next_message_def loadingMessages_def)

text \<open>
  C9, amended. In every session reached from the initial one: a click on the generate
  button (a start or a restart of generating) sets the message to the first of the
  list and leaves exactly one interval, of 3000 ms, and \<open>k\<close> firings of it show message
  \<open>k mod 6\<close> of the list; in every session with the loading flag set (before and after
  the file read has settled) exactly one interval of 3000 ms is active, the message is
  message \<open>i\<close> of the list for some \<open>i\<close>, and \<open>k\<close> firings show message
  \<open>(i + k) mod 6\<close>; while the loading flag is off no interval is active, so none can
  fire and the rotation has stopped; and the step that ends generating (either awaited
  promise settling) leaves the message as it is.
\<close>

theorem status_message_rotation:
  "(run es (initial_world, []) = Some s \<and> step ClickGenerate s = Some (w, ts) \<longrightarrow>
      loadingMessage w = ''Warming up the studio lights...''
      \<and> (\<exists>h. intervals w = [(h, 3000)]
            \<and> (\<forall>k. run (replicate k (IntervalFires h)) (w, ts)
                       = Some (w\<lparr>loadingMessage := loadingMessages ! (k mod 6)\<rparr>, ts))))
   \<and> (run es (initial_world, []) = Some (w, ts) \<and> isLoading w \<longrightarrow>
        (\<exists>h i. i < 6 \<and> intervals w = [(h, 3000)] \<and> loadingMessage w = loadingMessages ! i
           \<and> (\<forall>k. run (replicate k (IntervalFires h)) (w, ts)
                      = Some (w\<lparr>loadingMessage := loadingMessages ! ((i + k) mod 6)\<rparr>, ts))))
   \<and> (run es (initial_world, []) = Some (w, ts) \<and> \<not> isLoading w \<longrightarrow>
        intervals w = [] \<and> step (IntervalFires h') (w, ts) = None)
   \<and> (step (ReadSettles ro) (w, ts) = Some (w', ts')
        \<or> step (GenerateSettles go) (w, ts) = Some (w', ts') \<longrightarrow>
        loadingMessage w' = loadingMessage w)"
proof -
  have first: "loadingMessages ! 0 = ''Warming up the studio lights...''"
    by (simp add: loadingMessages_def)
  have a: "loadingMessage w = ''Warming up the studio lights...''
      \<and> (\<exists>h. intervals w = [(h, 3000)]
            \<and> (\<forall>k. run (replicate k (IntervalFires h)) (w, ts)
                       = Some (w\<lparr>loadingMessage := loadingMessages ! (k mod 6)\<rparr>, ts)))"
    if r: "run es (initial_world, []) = Some s" and c: "step ClickGenerate s = Some (w, ts)"
  proof -
    obtain w0 ts0 where s: "s = (w0, ts0)" by (cases s)
    from run_rot_inv[OF _ r] initial_rot_inv have "rot_inv (fst s)" by simp
    from step_rot_inv[OF this c] have inv: "rot_inv w" by simp
    from click_generate_state c s have l: "isLoading w" and m: "loadingMessage w = loadingMessages ! 0"
      by auto
    from inv l obtain h where h: "intervals w = [(h, 3000)]"
      by (auto simp: rot_inv_def)
    have "run (replicate k (IntervalFires h)) (w, ts)
            = Some (w\<lparr>loadingMessage := loadingMessages ! (k mod 6)\<rparr>, ts)" for k
      using ticks_run[OF inv l h m, of k ts] by simp
    with h m first show ?thesis by auto
  qed
  have b: "intervals w = [] \<and> step (IntervalFires h') (w, ts) = None"
    if r: "run es (initial_world, []) = Some (w, ts)" and l: "\<not> isLoading w"
  proof -
    from run_rot_inv[OF _ r] initial_rot_inv have "rot_inv w" by simp
    with l have "intervals w = []" by (simp add: rot_inv_def)
    then show ?thesis by (simp add: step_def)
  qed
  have c: "loadingMessage w' = loadingMessage w"
    if "step (ReadSettles ro) (w, ts) = Some (w', ts')"
    using settle_keeps_message[OF that] by simp
  have d: "loadingMessage w' = loadingMessage w"
    if "step (GenerateSettles go) (w, ts) = Some (w', ts')"
    using settle_keeps_message[OF that] by simp
  note e = loading_session_rotates [of es w ts]
  from a b c d e show ?thesis by blast
qed

theorem status_message_rotation_witness:
  "run [FileChange (Some example_image) ''blob:1''] (initial_world, []) = Some (example_selected, [])
   \<and> step ClickGenerate (example_selected, [])
       = Some (example_generating, [AwaitRead example_image []])
   \<and> intervals example_generating = [(1, 3000)]
   \<and> run (replicate 7 (IntervalFires 1)) (example_generating, [AwaitRead example_image []])
       = Some (example_generating\<lparr>loadingMessage := ''Adjusting the camera lens...''\<rparr>,
               [AwaitRead example_image []])
   \<and> run [FileChange (Some example_image) ''blob:1'', ClickGenerate,
           ReadSettles (Onload ''data:image/jpeg;base64,SkZJRg=='')] (initial_world, [])
       = Some (example_sent, [AwaitGenerate example_request])
   \<and> isLoading example_sent
   \<and> intervals example_sent = [(1, 3000)]
   \<and> run (replicate 2 (IntervalFires 1)) (example_sent, [AwaitGenerate example_request])
       = Some (example_sent\<lparr>loadingMessage := ''Finding the perfect angle...''\<rparr>,
               [AwaitGenerate example_request])
   \<and> \<not> isLoading example_selected
   \<and> step (IntervalFires 1) (example_selected, []) = None
   \<and> step (ReadSettles Onerror) (example_generating, [AwaitRead example_image []])
       = Some (example_failed, [])
   \<and> loadingMessage example_failed = loadingMessage example_generating"
proof -
  note r = example_select_run and c = example_click_step
  note i = example_generating_fields(4)
  have m: "loadingMessages ! (7 mod 6) = ''Adjusting the camera lens...''"
    by (simp add: loadingMessages_def)
  note t1 = status_message_rotation
    [of "[FileChange (Some example_image) ''blob:1'']" "(example_selected, [])"
        example_generating "[AwaitRead example_image []]" 1 Onerror example_failed "[]"]
  from t1 r c
  obtain h where "intervals example_generating = [(h, 3000)]"
    and "\<forall>k. run (replicate k (IntervalFires h)) (example_generating, [AwaitRead example_image []])
           = Some (example_generating\<lparr>loadingMessage := loadingMessages ! (k mod 6)\<rparr>,
                   [AwaitRead example_image []])"
    by blast
  with i have "run (replicate 7 (IntervalFires 1)) (example_generating, [AwaitRead example_image []])
           = Some (example_generating\<lparr>loadingMessage := loadingMessages ! (7 mod 6)\<rparr>,
                   [AwaitRead example_image []])"
    by auto
  then have seven: "run (replicate 7 (IntervalFires 1)) (example_generating, [AwaitRead example_image []])
       = Some (example_generating\<lparr>loadingMessage := ''Adjusting the camera lens...''\<rparr>,
               [AwaitRead example_image []])"
    by (simp only: m)
  from t1 example_fail_step
  have keep: "loadingMessage example_failed = loadingMessage example_generating"
    by blast
  note t2 = status_message_rotation
    [of "[FileChange (Some example_image) ''blob:1'']" undefined example_selected "[]" 1]
  from t2 r example_selected_fields(4)
  have stop: "step (IntervalFires 1) (example_selected, []) = None"
    by blast
  note t3 = status_message_rotation
    [of "[FileChange (Some example_image) ''blob:1'', ClickGenerate,
          ReadSettles (Onload ''data:image/jpeg;base64,SkZJRg=='')]" undefined
        example_sent "[AwaitGenerate example_request]"]
  from t3 example_sent_run example_sent_fields(1)
  obtain h2 i2 where i2: "i2 < 6" and h2: "intervals example_sent = [(h2, 3000)]"
    and m2: "loadingMessage example_sent = loadingMessages ! i2"
    and k2: "\<forall>k. run (replicate k (IntervalFires h2)) (example_sent, [AwaitGenerate example_request])
           = Some (example_sent\<lparr>loadingMessage := loadingMessages ! ((i2 + k) mod 6)\<rparr>,
                   [AwaitGenerate example_request])"
    by blast
  from h2 example_sent_fields(2) have h21: "h2 = 1" by simp
  have dist: "j < 6 \<Longrightarrow> loadingMessages ! 0 = loadingMessages ! j \<Longrightarrow> j = 0" for j
  proof -
    assume "j < 6" and eq: "loadingMessages ! 0 = loadingMessages ! j"
    then have "j = 0 \<or> j = 1 \<or> j = 2 \<or> j = 3 \<or> j = 4 \<or> j = 5" by arith
    with eq show "j = 0" by (auto simp: loadingMessages_def)
  qed
  from m2 example_sent_fields(3) i2 dist have i20: "i2 = 0" by auto
  have m3: "loadingMessages ! ((0 + 2) mod 6) = ''Finding the perfect angle...''"
    by (simp add: loadingMessages_def)
  from k2 h21 i20
  have "run (replicate 2 (IntervalFires 1)) (example_sent, [AwaitGenerate example_request])
           = Some (example_sent\<lparr>loadingMessage := loadingMessages ! ((0 + 2) mod 6)\<rparr>,
                   [AwaitGenerate example_request])"
    by blast
  then have two: "run (replicate 2 (IntervalFires 1)) (example_sent, [AwaitGenerate example_request])
       = Some (example_sent\<lparr>loadingMessage := ''Finding the perfect angle...''\<rparr>,
               [AwaitGenerate example_request])"
    by (simp only: m3)
  from r c i seven example_sent_run example_sent_fields(1,2) two
    example_selected_fields(4) stop example_fail_step keep
  show ?thesis by blast
qed

subsection \<open>A failed attempt\<close>

lemma handleGenerate_attempt:
  assumes "sourceImageFile w = Some f"
  shows "handleGenerate outcome gc w\<lparr>calls := []\<rparr> =
     (case generate_attempt outcome gc f (description w) of
        Inl err \<Rightarrow> finally_generate (catch_generate err (fst (handleGenerate_start w)))
      | Inr imageUrl \<Rightarrow>
          finally_generate ((fst (handleGenerate_start w))\<lparr>generatedImage := Some imageUrl\<rparr>))
       \<lparr>calls := []\<rparr>"
  using assms
  by (auto simp: handleGenerate_def generate_attempt_def generateHeadshot_def handler_defs Let_def
           split: sum.splits throwable.splits option.splits)

lemma loading_step_keeps_inputs:
  assumes "isLoading w" and "step e (w, ts) = Some (w', ts')"
  shows "sourceImageFile w' = sourceImageFile w \<and> sourceImagePreview w' = sourceImagePreview w
         \<and> description w' = description w"
proof -
  from assms(2) obtain w1 where h: "handle e (w, ts) = Some (w1, ts')" and w': "w' = commit w w1"
    by (auto simp: step_def split: option.splits)
  have rr: "resume_read ro w ts = Some (w1, ts') \<Longrightarrow>
      sourceImageFile w1 = sourceImageFile w \<and> sourceImagePreview w1 = sourceImagePreview w
         \<and> description w1 = description w" for ro
    by (induction ro w ts arbitrary: ts' rule: resume_read.induct)
       (auto simp: handler_defs Let_def split: option.splits sum.splits throwable.splits)
  have rg: "resume_generate go w ts = Some (w1, ts') \<Longrightarrow>
      sourceImageFile w1 = sourceImageFile w \<and> sourceImagePreview w1 = sourceImagePreview w
         \<and> description w1 = description w" for go
    by (induction go w ts arbitrary: ts' rule: resume_generate.induct)
       (auto simp: handler_defs Let_def split: option.splits sum.splits throwable.splits)
  have "sourceImageFile w1 = sourceImageFile w \<and> sourceImagePreview w1 = sourceImagePreview w
         \<and> description w1 = description w"
    using h assms(1) rr rg
    by (cases e) (auto simp: render_defs interval_callback_def split: if_splits)
  then show ?thesis by (simp add: w' commit_component)
qed

text \<open>
  C10. When a source image is present and the attempt fails with \<open>err\<close> (the file read
  or the adapter throws), \<open>handleGenerate\<close> ends with the same source file, preview and
  instruction text, with the error set to the message of \<open>err\<close> (or to
  \<^verbatim>\<open>An unexpected error occurred.\<close> when \<open>err\<close> is not an \<^verbatim>\<open>Error\<close>) and with the loading
  flag off; apart from the log of calls, the state is the one the first segment left,
  with just these two fields set. And no step that can happen while the loading flag is
  set changes the source file, the preview or the instruction text, so this also holds
  when intervals fire between the segments.
\<close>

theorem failed_generation_keeps_inputs:
  "(sourceImageFile w = Some f \<and> generate_attempt outcome gc f (description w) = Inl err \<longrightarrow>
      sourceImageFile (handleGenerate outcome gc w) = Some f
      \<and> sourceImagePreview (handleGenerate outcome gc w) = sourceImagePreview w
      \<and> description (handleGenerate outcome gc w) = description w
      \<and> error (handleGenerate outcome gc w)
          = Some (case err of JsError m \<Rightarrow> m | NonError \<Rightarrow> ''An unexpected error occurred.'')
      \<and> \<not> isLoading (handleGenerate outcome gc w)
      \<and> handleGenerate outcome gc w\<lparr>calls := []\<rparr>
          = (fst (handleGenerate_start w))
              \<lparr>error := Some (case err of JsError m \<Rightarrow> m
                                | NonError \<Rightarrow> ''An unexpected error occurred.''),
               isLoading := False, calls := []\<rparr>)
   \<and> (isLoading w \<and> step e (w, ts) = Some (w', ts') \<longrightarrow>
        sourceImageFile w' = sourceImageFile w \<and> sourceImagePreview w' = sourceImagePreview w
        \<and> description w' = description w)"
proof -
  have a: "handleGenerate outcome gc w\<lparr>calls := []\<rparr>
          = (fst (handleGenerate_start w))
              \<lparr>error := Some (case err of JsError m \<Rightarrow> m
                                | NonError \<Rightarrow> ''An unexpected error occurred.''),
               isLoading := False, calls := []\<rparr>"
    if "sourceImageFile w = Some f" and "generate_attempt outcome gc f (description w) = Inl err"
    using that handleGenerate_attempt[OF that(1), of outcome gc]
    by (simp add: catch_generate_def finally_generate_def split: throwable.splits)
  have b: "sourceImageFile (handleGenerate outcome gc w) = Some f
      \<and> sourceImagePreview (handleGenerate outcome gc w) = sourceImagePreview w
      \<and> description (handleGenerate outcome gc w) = description w
      \<and> error (handleGenerate outcome gc w)
          = Some (case err of JsError m \<Rightarrow> m | NonError \<Rightarrow> ''An unexpected error occurred.'')
      \<and> \<not> isLoading (handleGenerate outcome gc w)"
    if f: "sourceImageFile w = Some f" and g: "generate_attempt outcome gc f (description w) = Inl err"
  proof -
    let ?r = "handleGenerate outcome gc w"
    let ?s = "(fst (handleGenerate_start w))
              \<lparr>error := Some (case err of JsError m \<Rightarrow> m
                                | NonError \<Rightarrow> ''An unexpected error occurred.''),
               isLoading := False, calls := []\<rparr>"
    have eq: "?r\<lparr>calls := []\<rparr> = ?s" using a[OF f g] .
    have "sourceImageFile ?r = sourceImageFile (?r\<lparr>calls := []\<rparr>)"
      "sourceImagePreview ?r = sourceImagePreview (?r\<lparr>calls := []\<rparr>)"
      "description ?r = description (?r\<lparr>calls := []\<rparr>)"
      "error ?r = error (?r\<lparr>calls := []\<rparr>)"
      "isLoading ?r = isLoading (?r\<lparr>calls := []\<rparr>)"
      by simp_all
    then show ?thesis
      unfolding eq using f by (simp_all add: handleGenerate_start_def log_call_def)
  qed
  from a b loading_step_keeps_inputs show ?thesis by blast
qed

theorem failed_generation_keeps_inputs_witness:
  "sourceImageFile example_selected = Some example_image
   \<and> generate_attempt Onerror (\<lambda>req. Inl NonError) example_image (description example_selected)
       = Inl NonError
   \<and> sourceImageFile (handleGenerate Onerror (\<lambda>req. Inl NonError) example_selected)
       = Some example_image
   \<and> sourceImagePreview (handleGenerate Onerror (\<lambda>req. Inl NonError) example_selected)
       = Some ''blob:1''
   \<and> description (handleGenerate Onerror (\<lambda>req. Inl NonError) example_selected) = []
   \<and> error (handleGenerate Onerror (\<lambda>req. Inl NonError) example_selected)
       = Some ''An unexpected error occurred.''
   \<and> \<not> isLoading (handleGenerate Onerror (\<lambda>req. Inl NonError) example_selected)
   \<and> isLoading example_generating
   \<and> step (ReadSettles Onerror) (example_generating, [AwaitRead example_image []])
       = Some (example_failed, [])
   \<and> sourceImageFile example_failed = sourceImageFile example_generating
   \<and> sourceImagePreview example_failed = sourceImagePreview example_generating
   \<and> description example_failed = description example_generating"
proof -
  note f = example_selected_fields(1) and p = example_selected_fields(2)
    and d = example_selected_fields(3)
  have g: "generate_attempt Onerror (\<lambda>req. Inl NonError) example_image (description example_selected)
       = Inl NonError"
    by (simp add: generate_attempt_def fileToBase64_def)
  from failed_generation_keeps_inputs
    [of example_selected example_image Onerror "\<lambda>req. Inl NonError" NonError] f g p d
  have first: "sourceImageFile (handleGenerate Onerror (\<lambda>req. Inl NonError) example_selected)
       = Some example_image
   \<and> sourceImagePreview (handleGenerate Onerror (\<lambda>req. Inl NonError) example_selected)
       = Some ''blob:1''
   \<and> description (handleGenerate Onerror (\<lambda>req. Inl NonError) example_selected) = []
   \<and> error (handleGenerate Onerror (\<lambda>req. Inl NonError) example_selected)
       = Some ''An unexpected error occurred.''
   \<and> \<not> isLoading (handleGenerate Onerror (\<lambda>req. Inl NonError) example_selected)"
    by simp
  from failed_generation_keeps_inputs
    [of example_generating undefined undefined undefined undefined
        "ReadSettles Onerror" "[AwaitRead example_image []]" example_failed "[]"]
    example_generating_fields(1) example_fail_step
  have second: "sourceImageFile example_failed = sourceImageFile example_generating
   \<and> sourceImagePreview example_failed = sourceImagePreview example_generating
   \<and> description example_failed = description example_generating"
    by blast
  from f g first second example_generating_fields(1) example_fail_step
  show ?thesis by blast
qed

end
